theory Spec2Isabelle
  imports Complex_Main
begin

section \<open>JavaScript values used by the rule memory\<close>

text \<open>
  Strings are lists of characters. A value that TypeScript types as
  \<^verbatim>\<open>string | null\<close> or as an optional property is a \<open>js_string\<close>: a template
  literal prints \<^verbatim>\<open>undefined\<close> and \<^verbatim>\<open>null\<close> by name.
\<close>

datatype js_string = Undefined | Null | Str string

fun template :: "js_string \<Rightarrow> string" where
  "template Undefined = ''undefined''"
| "template Null = ''null''"
| "template (Str s) = s"

text \<open>Truthiness of such a value: only a non-empty string is truthy.\<close>

fun truthy :: "js_string \<Rightarrow> bool" where
  "truthy (Str s) = (s \<noteq> [])"
| "truthy _ = False"

text \<open>
  A thrown value. \<open>ErrorObj m\<close> is an instance of \<^verbatim>\<open>Error\<close> with message \<open>m\<close>;
  \<open>PlainObj e m\<close> is any other object, with its \<^verbatim>\<open>error?.message\<close> and
  \<^verbatim>\<open>message\<close> properties; \<open>OtherThrown\<close> is a thrown primitive.
\<close>

datatype thrown = ErrorObj string | PlainObj js_string js_string | OtherThrown

text \<open>\<^verbatim>\<open>error instanceof Error ? error.message : "Unknown error"\<close>, as both handlers write it.\<close>

fun message_or_unknown :: "thrown \<Rightarrow> string" where
  "message_or_unknown (ErrorObj m) = m"
| "message_or_unknown _ = ''Unknown error''"

text \<open>Decimal printing of the counts and row ids that the messages interpolate.\<close>

definition digit_char :: "nat \<Rightarrow> char" where
  "digit_char n = char_of (48 + n)"

function string_of_nat :: "nat \<Rightarrow> string" where
  "string_of_nat n =
     (if n < 10 then [digit_char n] else string_of_nat (n div 10) @ [digit_char (n mod 10)])"
  by pat_completeness auto
termination
  by (relation "measure (\<lambda>n. n)") auto

declare string_of_nat.simps [simp del]

text \<open>\<^verbatim>\<open>String.prototype.trim\<close> on the code units below 256: tab, line feed, vertical tab,
  form feed, carriage return, space and no-break space are white space.\<close>

definition js_whitespace :: "char \<Rightarrow> bool" where
  "js_whitespace c = ((of_char c :: nat) \<in> {9, 10, 11, 12, 13, 32, 160})"

definition trim :: "string \<Rightarrow> string" where
  "trim s = rev (dropWhile js_whitespace (rev (dropWhile js_whitespace s)))"

section \<open>Embedding generator (src/llm/embedding-client.ts)\<close>

text \<open>
  An embedding is the sequence of its elements. The rounding of each element to a
  32-bit float by \<^verbatim>\<open>new Float32Array(...)\<close> is not modelled: no operation of the core
  inspects an element.
\<close>

type_synonym embedding = "real list"

record EmbeddingResult =
  success :: bool
  result_embedding :: "embedding option"
  error :: js_string

text \<open>
  The provider's answer to \<^verbatim>\<open>embeddings.create\<close>, as far as the client reads it: its
  \<^verbatim>\<open>data\<close> property. \<open>Data items\<close> is a list, each item with its \<^verbatim>\<open>embedding\<close> property
  (\<open>None\<close> when that property is missing or null); \<open>DataMissing\<close> and \<open>DataNull\<close> are an
  answer whose \<^verbatim>\<open>data\<close> is \<^verbatim>\<open>undefined\<close> or \<^verbatim>\<open>null\<close>.
\<close>

datatype embeddings_response = DataMissing | DataNull | Data "embedding option list"

fun first_embedding :: "embedding option list \<Rightarrow> embedding option" where
  "first_embedding [] = None"
| "first_embedding (item # _) = item"

definition squote :: string where
  "squote = [CHR 0x27]"

text \<open>The \<^verbatim>\<open>TypeError\<close> of reading the property \<open>p\<close> of \<^verbatim>\<open>undefined\<close> or of \<^verbatim>\<open>null\<close>.\<close>

definition read_error :: "string \<Rightarrow> string \<Rightarrow> thrown" where
  "read_error what p =
     ErrorObj (''Cannot read properties of '' @ what @ '' (reading '' @ squote @ p @ squote
                 @ '')'')"

text \<open>
  \<^verbatim>\<open>response.data[0]?.embedding\<close>: the optional chaining guards the item, not the list, so
  the expression throws when there is no list.
\<close>

fun read_embedding :: "embeddings_response \<Rightarrow> thrown + embedding option" where
  "read_embedding DataMissing = Inl (read_error ''undefined'' ''0'')"
| "read_embedding DataNull = Inl (read_error ''null'' ''0'')"
| "read_embedding (Data items) = Inr (first_embedding items)"

text \<open>
  The body of the \<^verbatim>\<open>try\<close> in iteration \<open>k\<close>, up to the value of \<^verbatim>\<open>embedding\<close>: the request
  and the read of its answer; whatever either throws reaches the \<^verbatim>\<open>catch\<close>. \<open>create k\<close> is
  the outcome of the request sent in iteration \<open>k\<close>: a thrown value or a response.
\<close>

definition attempt_outcome ::
  "(nat \<Rightarrow> thrown + embeddings_response) \<Rightarrow> nat \<Rightarrow> thrown + embedding option" where
  "attempt_outcome create k =
     (case create k of Inl err \<Rightarrow> Inl err | Inr response \<Rightarrow> read_embedding response)"

record EmbeddingClientConfig =
  model :: string
  maxRetries :: int
  retryDelay :: int

text \<open>What a call of \<open>generateEmbedding\<close> does besides returning: the requests it sends,
  the warnings it logs and the pauses it makes, in order.\<close>

datatype event = ApiCall string string | Warn string | Sleep int

fun extractErrorMessage :: "thrown \<Rightarrow> string" where
  "extractErrorMessage (ErrorObj m) = m"
| "extractErrorMessage (PlainObj e m) =
     (if truthy e then template e else if truthy m then template m else ''Unknown error'')"
| "extractErrorMessage OtherThrown = ''Unknown error''"

definition attempts_message :: "nat \<Rightarrow> string \<Rightarrow> string" where
  "attempts_message effectiveMaxRetries lastMessage =
     ''Failed to generate embedding after '' @ string_of_nat (effectiveMaxRetries + 1)
       @ '' attempts. Last error: '' @ lastMessage"

definition failure :: "string \<Rightarrow> EmbeddingResult" where
  "failure msg = \<lparr>success = False, result_embedding = None, error = Str msg\<rparr>"

text \<open>The retry loop, from the iteration \<open>attempt\<close> on.\<close>

function retry_loop ::
  "EmbeddingClientConfig \<Rightarrow> (nat \<Rightarrow> thrown + embeddings_response) \<Rightarrow> string \<Rightarrow> nat \<Rightarrow>
     nat \<Rightarrow> js_string \<Rightarrow> EmbeddingResult \<times> event list" where
  "retry_loop cfg create text effectiveMaxRetries attempt lastError =
     (if attempt \<le> effectiveMaxRetries then
        (case attempt_outcome create attempt of
           Inr None \<Rightarrow>
             (failure ''Invalid embedding response format from OpenAI API'',
              [ApiCall (model cfg) text])
         | Inr (Some e) \<Rightarrow>
             (\<lparr>success = True, result_embedding = Some e, error = Undefined\<rparr>,
              [ApiCall (model cfg) text])
         | Inl err \<Rightarrow>
             (let errorMessage = extractErrorMessage err in
              if attempt = effectiveMaxRetries then
                (failure (attempts_message effectiveMaxRetries errorMessage),
                 [ApiCall (model cfg) text])
              else
                (let pause = (if attempt < effectiveMaxRetries
                              then [Sleep (retryDelay cfg * 2 ^ attempt)] else []);
                     (res, evs) = retry_loop cfg create text effectiveMaxRetries (Suc attempt)
                                    (Str errorMessage)
                 in (res,
                     [ApiCall (model cfg) text,
                      Warn (''Embedding generation attempt '' @ string_of_nat (attempt + 1)
                              @ '' failed: '' @ errorMessage)] @ pause @ evs))))
      else
        (failure (attempts_message effectiveMaxRetries
                    (if truthy lastError then template lastError else ''Unknown error'')),
         []))"
  by pat_completeness auto
termination
  by (relation "measure (\<lambda>(cfg, create, text, eff, attempt, lastError). Suc eff - attempt)") auto

declare retry_loop.simps [simp del]

definition generateEmbedding ::
  "EmbeddingClientConfig \<Rightarrow> (nat \<Rightarrow> thrown + embeddings_response) \<Rightarrow> string \<Rightarrow>
     EmbeddingResult \<times> event list" where
  "generateEmbedding cfg create text =
     retry_loop cfg create text (nat (max 0 (maxRetries cfg))) 0 Undefined"

text \<open>The requests and the pauses of a run.\<close>

fun is_api_call :: "event \<Rightarrow> bool" where
  "is_api_call (ApiCall _ _) = True"
| "is_api_call _ = False"

definition attempts_made :: "event list \<Rightarrow> nat" where
  "attempts_made evs = length (filter is_api_call evs)"


text \<open>The events of one failed iteration that is followed by another one.\<close>

definition failed_round ::
  "EmbeddingClientConfig \<Rightarrow> string \<Rightarrow> (nat \<Rightarrow> thrown) \<Rightarrow> nat \<Rightarrow> event list" where
  "failed_round cfg text errs k =
     [ApiCall (model cfg) text,
      Warn (''Embedding generation attempt '' @ string_of_nat (k + 1) @ '' failed: ''
              @ extractErrorMessage (errs k)),
      Sleep (retryDelay cfg * 2 ^ k)]"

section \<open>Storage (src/database.ts)\<close>

text \<open>
  The two tables, with the columns of their \<^verbatim>\<open>CREATE TABLE\<close> statements. The column \<^verbatim>\<open>id\<close>
  is \<open>i_id\<close> and \<open>r_id\<close>, the columns \<^verbatim>\<open>context\<close> and \<^verbatim>\<open>inserted_at\<close> carry the same
  prefixes. A row object that a query returns is a record of the same type, a column that
  the query does not select being \<open>None\<close> there.
\<close>

record UserInstruction =
  i_id :: nat
  instruction :: string
  i_context :: string
  i_inserted_at :: nat
  rule_id :: "nat option"

record Rule =
  r_id :: nat
  rule_text :: string
  category :: string
  r_context :: string
  relevance_score :: "real option"
  embedding :: "embedding option"
  created_from_instruction_id :: "nat option"
  last_applied :: "nat option"
  instructions_count :: int
  r_inserted_at :: nat

text \<open>
  The database handle. Each table has its rows and the largest row id it has handed out
  (\<^verbatim>\<open>AUTOINCREMENT\<close>). The storage engine is outside the core: whether the statement
  number \<open>n\<close> of the connection throws (closed connection, violated constraint, I/O error)
  is given by \<open>faults n\<close>, and \<open>statements\<close> counts the statements issued so far.
\<close>

record database =
  user_instructions :: "UserInstruction list"
  user_instructions_seq :: nat
  rules :: "Rule list"
  rules_seq :: nat
  current_timestamp :: nat
  faults :: "nat \<Rightarrow> string option"
  statements :: nat

definition run_statement ::
  "database \<Rightarrow> (database \<Rightarrow> 'a \<times> database) \<Rightarrow> (thrown + 'a) \<times> database" where
  "run_statement d stmt =
     (case faults d (statements d) of
        Some msg \<Rightarrow> (Inl (ErrorObj msg), d\<lparr>statements := Suc (statements d)\<rparr>)
      | None \<Rightarrow> (let (r, d') = stmt (d\<lparr>statements := Suc (statements d)\<rparr>) in (Inr r, d')))"

definition next_rowid :: "nat \<Rightarrow> nat list \<Rightarrow> nat" where
  "next_rowid seq ids = Suc (fold max ids seq)"

text \<open>\<^verbatim>\<open>INSERT INTO user_instructions (instruction, context, rule_id) VALUES (?, ?, ?)\<close>,
  returning \<^verbatim>\<open>lastInsertRowid\<close>.\<close>

definition insert_user_instruction ::
  "string \<Rightarrow> string \<Rightarrow> nat option \<Rightarrow> database \<Rightarrow> nat \<times> database" where
  "insert_user_instruction instr ctx rid d =
     (let new = next_rowid (user_instructions_seq d) (map i_id (user_instructions d));
          row = \<lparr>i_id = new, instruction = instr, i_context = ctx,
                 i_inserted_at = current_timestamp d, rule_id = rid\<rparr>
      in (new, d\<lparr>user_instructions := user_instructions d @ [row],
                  user_instructions_seq := new\<rparr>))"

text \<open>\<^verbatim>\<open>INSERT INTO rules (rule_text, category, context, instructions_count, embedding,
  created_from_instruction_id) VALUES (?, ?, ?, ?, ?, ?)\<close>; the other columns take their
  defaults.\<close>

definition insert_rule ::
  "string \<Rightarrow> string \<Rightarrow> string \<Rightarrow> int \<Rightarrow> embedding \<Rightarrow> nat \<Rightarrow> database \<Rightarrow> nat \<times> database" where
  "insert_rule ruleText cat ctx cnt emb instructionId d =
     (let new = next_rowid (rules_seq d) (map r_id (rules d));
          row = \<lparr>r_id = new, rule_text = ruleText, category = cat, r_context = ctx,
                 relevance_score = Some 1, embedding = Some emb,
                 created_from_instruction_id = Some instructionId, last_applied = None,
                 instructions_count = cnt, r_inserted_at = current_timestamp d\<rparr>
      in (new, d\<lparr>rules := rules d @ [row], rules_seq := new\<rparr>))"

section \<open>Instruction store (src/repos/instructions-repo.ts)\<close>

definition findInstructionById ::
  "nat \<Rightarrow> database \<Rightarrow> (thrown + UserInstruction option) \<times> database" where
  "findInstructionById ident d =
     run_statement d (\<lambda>d'. (find (\<lambda>r. i_id r = ident) (user_instructions d'), d'))"

definition createInstruction ::
  "string \<Rightarrow> string \<Rightarrow> database \<Rightarrow> (thrown + UserInstruction option) \<times> database" where
  "createInstruction instr ctx d =
     (case run_statement d (insert_user_instruction instr ctx None) of
        (Inl t, d1) \<Rightarrow> (Inl t, d1)
      | (Inr instructionId, d1) \<Rightarrow> findInstructionById instructionId d1)"

definition findInstructionsByRuleId ::
  "nat \<Rightarrow> database \<Rightarrow> (thrown + UserInstruction list) \<times> database" where
  "findInstructionsByRuleId ruleId d =
     run_statement d (\<lambda>d'. (filter (\<lambda>r. rule_id r = Some ruleId) (user_instructions d'), d'))"

definition updateInstructionRuleId ::
  "nat \<Rightarrow> nat \<Rightarrow> database \<Rightarrow> (thrown + unit) \<times> database" where
  "updateInstructionRuleId instructionId ruleId d =
     run_statement d
       (\<lambda>d'. ((), d'\<lparr>user_instructions :=
                       map (\<lambda>r. if i_id r = instructionId then r\<lparr>rule_id := Some ruleId\<rparr> else r)
                         (user_instructions d')\<rparr>))"

section \<open>Rule store (src/repos/rules-repo.ts)\<close>

text \<open>
  An embedding client, as the stores and handlers see it: \<open>generateEmbedding(text)\<close> resolves
  to a result or rejects. The state of the process is the database together with the texts
  handed to the embedding client so far.
\<close>

type_synonym EmbeddingClient = "string \<Rightarrow> thrown + EmbeddingResult"

record world =
  db :: database
  embedding_calls :: "string list"

definition call_generateEmbedding ::
  "EmbeddingClient \<Rightarrow> string \<Rightarrow> world \<Rightarrow> (thrown + EmbeddingResult) \<times> world" where
  "call_generateEmbedding client text w =
     (client text, w\<lparr>embedding_calls := embedding_calls w @ [text]\<rparr>)"

text \<open>The two clients of the repository, as embedding clients.\<close>

definition OpenAIEmbeddingClient ::
  "EmbeddingClientConfig \<Rightarrow> (nat \<Rightarrow> thrown + embeddings_response) \<Rightarrow> EmbeddingClient" where
  "OpenAIEmbeddingClient cfg create text = Inr (fst (generateEmbedding cfg create text))"

text \<open>\<open>MockEmbeddingClient\<close> with \<^verbatim>\<open>failureAttempts = 0\<close> and \<^verbatim>\<open>delayMs = 0\<close>.\<close>

definition MockEmbeddingClient :: "bool \<Rightarrow> embedding \<Rightarrow> EmbeddingClient" where
  "MockEmbeddingClient shouldFail customEmbedding text =
     Inr (if shouldFail then failure ''Mock embedding generation failed''
          else \<lparr>success = True, result_embedding = Some customEmbedding, error = Undefined\<rparr>)"

text \<open>The column list of \<open>findRuleById\<close> has no \<^verbatim>\<open>embedding\<close>.\<close>

definition select_rule_columns :: "Rule \<Rightarrow> Rule" where
  "select_rule_columns r = r\<lparr>embedding := None\<rparr>"

definition findRuleById :: "nat \<Rightarrow> database \<Rightarrow> (thrown + Rule option) \<times> database" where
  "findRuleById ident d =
     run_statement d
       (\<lambda>d'. (map_option select_rule_columns (find (\<lambda>r. r_id r = ident) (rules d')), d'))"

definition createRule ::
  "EmbeddingClient \<Rightarrow> string \<Rightarrow> string \<Rightarrow> string \<Rightarrow> nat \<Rightarrow> world \<Rightarrow>
     (thrown + Rule option) \<times> world" where
  "createRule client ruleText cat ctx createdFromInstructionId w =
     (case call_generateEmbedding client ruleText w of
        (Inl t, w1) \<Rightarrow> (Inl t, w1)
      | (Inr embeddingResult, w1) \<Rightarrow>
          (case (if success embeddingResult then result_embedding embeddingResult else None) of
             None \<Rightarrow>
               (Inl (ErrorObj (''Failed to generate embedding: ''
                                 @ template (error embeddingResult))), w1)
           | Some emb \<Rightarrow>
               (case run_statement (db w1)
                       (insert_rule ruleText cat ctx 1 emb createdFromInstructionId) of
                  (Inl t, d2) \<Rightarrow> (Inl t, w1\<lparr>db := d2\<rparr>)
                | (Inr ruleId, d2) \<Rightarrow>
                    (case findRuleById ruleId d2 of (r, d3) \<Rightarrow> (r, w1\<lparr>db := d3\<rparr>)))))"

text \<open>
  The similarity query. \<open>vec_distance_cosine\<close> is the vector primitive of the storage
  engine, applied to the stored column and the query vector; \<open>None\<close> is SQL \<^verbatim>\<open>NULL\<close>, which
  fails the \<^verbatim>\<open>WHERE\<close> comparison. The result rows carry the computed \<^verbatim>\<open>relevance_score\<close>;
  \<^verbatim>\<open>LIMIT\<close> takes a row count.
\<close>

definition similarity ::
  "(embedding option \<Rightarrow> embedding \<Rightarrow> real option) \<Rightarrow> embedding \<Rightarrow> Rule \<Rightarrow> real option" where
  "similarity vec_distance_cosine query r =
     map_option (\<lambda>dist. 1 - dist) (vec_distance_cosine (embedding r) query)"

definition qualifies ::
  "(embedding option \<Rightarrow> embedding \<Rightarrow> real option) \<Rightarrow> embedding \<Rightarrow> real \<Rightarrow> Rule \<Rightarrow> bool" where
  "qualifies vec_distance_cosine query threshold r =
     (case similarity vec_distance_cosine query r of None \<Rightarrow> False | Some s \<Rightarrow> s \<ge> threshold)"

definition relevant_rule ::
  "(embedding option \<Rightarrow> embedding \<Rightarrow> real option) \<Rightarrow> embedding \<Rightarrow> Rule \<Rightarrow> Rule" where
  "relevant_rule vec_distance_cosine query r =
     r\<lparr>relevance_score := similarity vec_distance_cosine query r, embedding := None\<rparr>"

definition descending_key :: "Rule \<Rightarrow> real" where
  "descending_key r = (case relevance_score r of None \<Rightarrow> 0 | Some s \<Rightarrow> - s)"

definition select_similar_rules ::
  "(embedding option \<Rightarrow> embedding \<Rightarrow> real option) \<Rightarrow> embedding \<Rightarrow> nat \<Rightarrow> real \<Rightarrow>
     Rule list \<Rightarrow> Rule list" where
  "select_similar_rules vec_distance_cosine query limit threshold rows =
     take limit
       (sort_key descending_key
          (map (relevant_rule vec_distance_cosine query)
             (filter (qualifies vec_distance_cosine query threshold) rows)))"

definition findSimilarRules ::
  "(embedding option \<Rightarrow> embedding \<Rightarrow> real option) \<Rightarrow> embedding \<Rightarrow> nat \<Rightarrow> real \<Rightarrow>
     database \<Rightarrow> (thrown + Rule list) \<times> database" where
  "findSimilarRules vec_distance_cosine query limit threshold d =
     run_statement d
       (\<lambda>d'. (select_similar_rules vec_distance_cosine query limit threshold (rules d'), d'))"

section \<open>Rule classifier interface (src/llm/client.ts)\<close>

text \<open>
  The result of \<open>generateRule\<close>: \<open>rule\<close> is the pair of \<^verbatim>\<open>rule_text\<close> and \<^verbatim>\<open>category\<close>, or
  \<open>None\<close> for \<^verbatim>\<open>null\<close>. The fields \<^verbatim>\<open>success\<close> and \<^verbatim>\<open>error\<close> are \<open>rg_success\<close> and
  \<open>rg_error\<close> here.
\<close>

record RuleGenerationResult =
  rg_success :: bool
  rule :: "(string \<times> string) option"
  reason :: js_string
  rg_error :: js_string

type_synonym LLMClient = "string \<Rightarrow> string \<Rightarrow> thrown + RuleGenerationResult"

section \<open>Tool results\<close>

text \<open>
  A handler resolves to \<^verbatim>\<open>{ content: [{ type: "text", text }] }\<close> or rejects with a thrown
  value. What the handlers write to the console is not part of the model.
\<close>

datatype content_item = TextContent string

type_synonym tool_result = "content_item list"

definition text_result :: "string \<Rightarrow> tool_result" where
  "text_result s = [TextContent s]"

definition dquote :: string where
  "dquote = [CHR 0x22]"

text \<open>The \<^verbatim>\<open>TypeError\<close> of reading a property of \<^verbatim>\<open>null\<close>.\<close>

definition null_property_error :: "string \<Rightarrow> thrown" where
  "null_property_error p =
     ErrorObj (''Cannot read properties of null (reading '' @ squote @ p @ squote @ '')'')"

section \<open>Instruction intake (tools/rememberDeveloperInstruction.ts)\<close>

text \<open>Step 3 and step 4, the body of the inner \<^verbatim>\<open>try\<close> around rule creation.\<close>

definition create_rule_and_link ::
  "EmbeddingClient \<Rightarrow> string \<Rightarrow> string \<Rightarrow> string \<Rightarrow> UserInstruction option \<Rightarrow> world \<Rightarrow>
     (thrown + tool_result) \<times> world" where
  "create_rule_and_link client ruleText cat ctx createdInstruction w =
     (case createdInstruction of
        None \<Rightarrow> (Inl (null_property_error ''id''), w)
      | Some ci \<Rightarrow>
          (case createRule client ruleText cat ctx (i_id ci) w of
             (Inl t, w1) \<Rightarrow> (Inl t, w1)
           | (Inr None, w1) \<Rightarrow> (Inl (null_property_error ''id''), w1)
           | (Inr (Some r), w1) \<Rightarrow>
               (case updateInstructionRuleId (i_id ci) (r_id r) (db w1) of
                  (Inl t, d2) \<Rightarrow> (Inl t, w1\<lparr>db := d2\<rparr>)
                | (Inr _, d2) \<Rightarrow>
                    (Inr (text_result
                       (''Instruction processed successfully. Generated rule: '' @ dquote
                          @ ruleText @ dquote @ '' (category: '' @ cat @ ''). Rule ID: ''
                          @ string_of_nat (r_id r) @ '', Instruction ID: ''
                          @ string_of_nat (i_id ci))),
                     w1\<lparr>db := d2\<rparr>))))"

text \<open>The body of the outer \<^verbatim>\<open>try\<close>.\<close>

definition remember_body ::
  "LLMClient \<Rightarrow> EmbeddingClient \<Rightarrow> string \<Rightarrow> string \<Rightarrow> world \<Rightarrow>
     (thrown + tool_result) \<times> world" where
  "remember_body llmClient client instr ctx w =
     (case llmClient instr ctx of
        Inl t \<Rightarrow> (Inl t, w)
      | Inr ruleGenerationResult \<Rightarrow>
          (case (if rg_success ruleGenerationResult then rule ruleGenerationResult else None) of
             None \<Rightarrow>
               (Inr (text_result (''Failed to generate abstract rule: ''
                                    @ template (rg_error ruleGenerationResult))), w)
           | Some (ruleText, cat) \<Rightarrow>
               (case createInstruction instr ctx (db w) of
                  (Inl t, d1) \<Rightarrow>
                    (Inr (text_result (''Failed to create instruction: ''
                                         @ message_or_unknown t)), w\<lparr>db := d1\<rparr>)
                | (Inr createdInstruction, d1) \<Rightarrow>
                    (case create_rule_and_link client ruleText cat ctx createdInstruction
                            (w\<lparr>db := d1\<rparr>) of
                       (Inl t, w2) \<Rightarrow>
                         (Inr (text_result (''Failed to create rule with embedding: ''
                                              @ message_or_unknown t)), w2)
                     | (Inr res, w2) \<Rightarrow> (Inr res, w2)))))"

definition rememberDeveloperInstructionHandler ::
  "LLMClient \<Rightarrow> EmbeddingClient \<Rightarrow> string \<Rightarrow> string \<Rightarrow> world \<Rightarrow>
     (thrown + tool_result) \<times> world" where
  "rememberDeveloperInstructionHandler llmClient client instr ctx w =
     (case remember_body llmClient client instr ctx w of
        (Inl t, w') \<Rightarrow> (Inr (text_result (''Unexpected error: '' @ message_or_unknown t)), w')
      | (Inr res, w') \<Rightarrow> (Inr res, w'))"

section \<open>Relevant-rule retrieval (src/tools/getRelevantRules.ts)\<close>

record GetRelevantRulesParams =
  taskDescription :: string
  maxResults :: "int option"
  similarityThreshold :: "real option"

text \<open>
  How the runtime prints a number: \<open>number_string\<close> in a template literal, \<open>toFixed3\<close> for
  \<^verbatim>\<open>toFixed(3)\<close>. Both are floating-point formatting and are taken as given.
\<close>

record number_format =
  number_string :: "real \<Rightarrow> string"
  toFixed3 :: "real \<Rightarrow> string"

definition rule_line :: "number_format \<Rightarrow> Rule \<Rightarrow> thrown + string" where
  "rule_line fmt r =
     (case relevance_score r of
        None \<Rightarrow> Inl (null_property_error ''toFixed'')
      | Some s \<Rightarrow>
          Inr (''- **'' @ rule_text r @ ''** (category: '' @ category r @ '', relevance: ''
                 @ toFixed3 fmt s @ '')''))"

fun rule_lines :: "number_format \<Rightarrow> Rule list \<Rightarrow> thrown + string list" where
  "rule_lines fmt [] = Inr []"
| "rule_lines fmt (r # rs) =
     (case rule_line fmt r of
        Inl t \<Rightarrow> Inl t
      | Inr l \<Rightarrow> (case rule_lines fmt rs of Inl t \<Rightarrow> Inl t | Inr ls \<Rightarrow> Inr (l # ls)))"

fun join_lines :: "string list \<Rightarrow> string" where
  "join_lines [] = []"
| "join_lines [l] = l"
| "join_lines (l # ls) = l @ [CHR 0x0A] @ join_lines ls"

definition getRelevantRules_body ::
  "number_format \<Rightarrow> (embedding option \<Rightarrow> embedding \<Rightarrow> real option) \<Rightarrow> EmbeddingClient \<Rightarrow>
     GetRelevantRulesParams \<Rightarrow> world \<Rightarrow> (thrown + tool_result) \<times> world" where
  "getRelevantRules_body fmt vec_distance_cosine client params w =
     (let maxRes = (case maxResults params of None \<Rightarrow> 5 | Some n \<Rightarrow> n);
          threshold = (case similarityThreshold params of None \<Rightarrow> 0 | Some x \<Rightarrow> x)
      in if trim (taskDescription params) = [] then
           (Inr (text_result ''Error: taskDescription cannot be empty''), w)
         else if maxRes < 1 \<or> maxRes > 100 then
           (Inr (text_result ''Error: maxResults must be between 1 and 100''), w)
         else if threshold < - 1 \<or> threshold > 1 then
           (Inr (text_result ''Error: similarityThreshold must be between -1 and 1''), w)
         else
           (case call_generateEmbedding client (taskDescription params) w of
              (Inl t, w1) \<Rightarrow> (Inl t, w1)
            | (Inr embeddingResult, w1) \<Rightarrow>
                (case (if success embeddingResult then result_embedding embeddingResult
                       else None) of
                   None \<Rightarrow>
                     (Inr (text_result (''Failed to generate embedding for task description: ''
                                          @ template (error embeddingResult))), w1)
                 | Some emb \<Rightarrow>
                     (case findSimilarRules vec_distance_cosine emb (nat maxRes) threshold
                             (db w1) of
                        (Inl t, d2) \<Rightarrow> (Inl t, w1\<lparr>db := d2\<rparr>)
                      | (Inr similarRules, d2) \<Rightarrow>
                          (if similarRules = [] then
                             (Inr (text_result
                                (''No relevant rules found for task description: '' @ dquote
                                   @ taskDescription params @ dquote
                                   @ '' (similarity threshold: ''
                                   @ number_string fmt threshold @ '')'')),
                              w1\<lparr>db := d2\<rparr>)
                           else
                             (case rule_lines fmt similarRules of
                                Inl t \<Rightarrow> (Inl t, w1\<lparr>db := d2\<rparr>)
                              | Inr ls \<Rightarrow>
                                  (Inr (text_result
                                     (''Found '' @ string_of_nat (length similarRules)
                                        @ '' relevant rules for task: '' @ dquote
                                        @ taskDescription params @ dquote
                                        @ [CHR 0x0A, CHR 0x0A] @ join_lines ls)),
                                   w1\<lparr>db := d2\<rparr>)))))))"

definition getRelevantRulesHandler ::
  "number_format \<Rightarrow> (embedding option \<Rightarrow> embedding \<Rightarrow> real option) \<Rightarrow> EmbeddingClient \<Rightarrow>
     GetRelevantRulesParams \<Rightarrow> world \<Rightarrow> (thrown + tool_result) \<times> world" where
  "getRelevantRulesHandler fmt vec_distance_cosine client params w =
     (case getRelevantRules_body fmt vec_distance_cosine client params w of
        (Inl t, w') \<Rightarrow> (Inr (text_result (''Unexpected error: '' @ message_or_unknown t)), w')
      | (Inr res, w') \<Rightarrow> (Inr res, w'))"

section \<open>Concrete inputs\<close>

text \<open>
  The stores and collaborators of the repository's tests: a database holding one
  instruction, the same database behind a closed connection, a database with five rules
  whose embeddings have one element, and a distance on such embeddings.
\<close>

definition test_database :: database where
  "test_database =
     \<lparr>user_instructions =
        [\<lparr>i_id = 1, instruction = ''Test instruction'', i_context = ''test context'',
          i_inserted_at = 0, rule_id = None\<rparr>],
      user_instructions_seq = 1, rules = [], rules_seq = 0, current_timestamp = 0,
      faults = (\<lambda>n. None), statements = 0\<rparr>"

definition test_world :: world where
  "test_world = \<lparr>db = test_database, embedding_calls = []\<rparr>"

definition closed_database :: database where
  "closed_database = test_database\<lparr>faults := (\<lambda>n. Some ''The database connection is not open'')\<rparr>"

definition example_format :: number_format where
  "example_format = \<lparr>number_string = (\<lambda>x. ''0''), toFixed3 = (\<lambda>x. ''0.000'')\<rparr>"

definition example_distance :: "embedding option \<Rightarrow> embedding \<Rightarrow> real option" where
  "example_distance stored query =
     (case (stored, query) of (Some [x], [y]) \<Rightarrow> Some (abs (x - y) / 10) | _ \<Rightarrow> None)"



text \<open>The instruction row that \<open>createInstruction\<close> inserts.\<close>

definition new_instruction :: "string \<Rightarrow> string \<Rightarrow> database \<Rightarrow> UserInstruction" where
  "new_instruction instr ctx d =
     \<lparr>i_id = next_rowid (user_instructions_seq d) (map i_id (user_instructions d)),
      instruction = instr, i_context = ctx, i_inserted_at = current_timestamp d,
      rule_id = None\<rparr>"

section \<open>Properties of the embedding generator\<close>

lemma string_of_nat_small: "n < 10 \<Longrightarrow> string_of_nat n = [digit_char n]"
  by (subst string_of_nat.simps) simp

lemma attempt_outcome_throw: "create k = Inl t \<Longrightarrow> attempt_outcome create k = Inl t"
  by (simp add: attempt_outcome_def)



lemma retry_loop_throw_last:
  "attempt_outcome create eff = Inl t \<Longrightarrow>
   retry_loop cfg create text eff eff lastError =
     (failure (attempts_message eff (extractErrorMessage t)), [ApiCall (model cfg) text])"
  by (subst retry_loop.simps) simp

lemma retry_loop_throw_step:
  "attempt_outcome create attempt = Inl t \<Longrightarrow> attempt < eff \<Longrightarrow>
   retry_loop cfg create text eff attempt lastError =
     (fst (retry_loop cfg create text eff (Suc attempt) (Str (extractErrorMessage t))),
      [ApiCall (model cfg) text,
       Warn (''Embedding generation attempt '' @ string_of_nat (attempt + 1) @ '' failed: ''
               @ extractErrorMessage t),
       Sleep (retryDelay cfg * 2 ^ attempt)]
      @ snd (retry_loop cfg create text eff (Suc attempt) (Str (extractErrorMessage t))))"
  by (subst retry_loop.simps) (simp add: Let_def split: prod.splits)


lemma retry_loop_first_call:
  "attempt \<le> eff \<Longrightarrow> \<exists>evs. snd (retry_loop cfg create text eff attempt lastError) = ApiCall (model cfg) text # evs"
  by (subst retry_loop.simps) (simp add: Let_def split: prod.splits sum.splits option.splits)


lemma retry_loop_all_throw:
  "attempt \<le> eff \<Longrightarrow> (\<And>k. k \<le> eff \<Longrightarrow> attempt_outcome create k = Inl (errs k)) \<Longrightarrow>
   retry_loop cfg create text eff attempt lastError =
     (failure (attempts_message eff (extractErrorMessage (errs eff))),
      concat (map (failed_round cfg text errs) [attempt..<eff]) @ [ApiCall (model cfg) text])"
proof (induction "eff - attempt" arbitrary: attempt lastError)
  case 0
  then have "attempt = eff" by simp
  with 0 show ?case by (simp add: retry_loop_throw_last)
next
  case (Suc n)
  then have lt: "attempt < eff" and n: "n = eff - Suc attempt" by simp_all
  have c: "attempt_outcome create attempt = Inl (errs attempt)" using Suc.prems lt by simp
  have ih: "retry_loop cfg create text eff (Suc attempt) (Str (extractErrorMessage (errs attempt))) =
     (failure (attempts_message eff (extractErrorMessage (errs eff))),
      concat (map (failed_round cfg text errs) [Suc attempt..<eff]) @ [ApiCall (model cfg) text])"
    using Suc.hyps(1)[OF n] lt Suc.prems(2) by simp
  show ?case
    by (simp add: retry_loop_throw_step[where create=create, OF c lt] ih upt_conv_Cons[OF lt] failed_round_def)
qed

lemma attempts_made_rounds:
  "attempts_made (concat (map (failed_round cfg text errs) ks) @ evs) = length ks + attempts_made evs"
  by (induction ks) (simp_all add: attempts_made_def failed_round_def)





lemma string_of_nat_Suc_0: "string_of_nat (Suc 0) = ''1''"
  by code_simp

lemma attempts_made_single: "attempts_made [ApiCall m t] = 1"
  by (simp add: attempts_made_def)







text \<open>
  Claim C10. For every configured \<open>maxRetries\<close>, negative values included, the retry budget is
  \<open>max 0 maxRetries\<close>: at least one request is always sent, and when every request throws
  exactly \<open>max 0 maxRetries + 1\<close> requests are sent and the failure message reports that
  count (\<^verbatim>\<open>after 1 attempts\<close> when \<open>maxRetries < 0\<close>).
\<close>

theorem generateEmbedding_clamps_retry_budget:
  "1 \<le> attempts_made (snd (generateEmbedding cfg create text))
   \<and> ((\<forall>k \<le> nat (max 0 (maxRetries cfg)). create k = Inl (errs k)) \<longrightarrow>
        attempts_made (snd (generateEmbedding cfg create text)) = nat (max 0 (maxRetries cfg)) + 1
        \<and> fst (generateEmbedding cfg create text) =
            \<lparr>success = False, result_embedding = None,
              error = Str (''Failed to generate embedding after ''
                            @ string_of_nat (nat (max 0 (maxRetries cfg)) + 1)
                            @ '' attempts. Last error: ''
                            @ extractErrorMessage (errs (nat (max 0 (maxRetries cfg)))))\<rparr>
        \<and> (maxRetries cfg < 0 \<longrightarrow>
             error (fst (generateEmbedding cfg create text)) =
               Str (''Failed to generate embedding after 1 attempts. Last error: ''
                     @ extractErrorMessage (errs 0))))"
proof -
  obtain evs where "snd (generateEmbedding cfg create text) = ApiCall (model cfg) text # evs"
    unfolding generateEmbedding_def using retry_loop_first_call[of 0] by blast
  then have one: "1 \<le> attempts_made (snd (generateEmbedding cfg create text))"
    by (simp add: attempts_made_def)
  have sn: "string_of_nat (Suc 0) = ''1''" by code_simp
  {
    assume throws: "\<forall>k \<le> nat (max 0 (maxRetries cfg)). create k = Inl (errs k)"
    have run: "generateEmbedding cfg create text =
      (failure (attempts_message (nat (max 0 (maxRetries cfg)))
                  (extractErrorMessage (errs (nat (max 0 (maxRetries cfg)))))),
       concat (map (failed_round cfg text errs) [0..<nat (max 0 (maxRetries cfg))])
         @ [ApiCall (model cfg) text])"
      unfolding generateEmbedding_def
      by (rule retry_loop_all_throw) (simp_all add: throws attempt_outcome_throw)
    have "attempts_made (snd (generateEmbedding cfg create text)) = nat (max 0 (maxRetries cfg)) + 1"
      by (simp add: run attempts_made_rounds attempts_made_single)
    moreover have "fst (generateEmbedding cfg create text) =
            \<lparr>success = False, result_embedding = None,
              error = Str (''Failed to generate embedding after ''
                            @ string_of_nat (nat (max 0 (maxRetries cfg)) + 1)
                            @ '' attempts. Last error: ''
                            @ extractErrorMessage (errs (nat (max 0 (maxRetries cfg)))))\<rparr>"
      by (simp add: run failure_def attempts_message_def)
    moreover have "maxRetries cfg < 0 \<longrightarrow>
             error (fst (generateEmbedding cfg create text)) =
               Str (''Failed to generate embedding after 1 attempts. Last error: ''
                     @ extractErrorMessage (errs 0))"
      by (simp add: run failure_def attempts_message_def max_def sn)
    ultimately have "attempts_made (snd (generateEmbedding cfg create text)) = nat (max 0 (maxRetries cfg)) + 1
        \<and> fst (generateEmbedding cfg create text) =
            \<lparr>success = False, result_embedding = None,
              error = Str (''Failed to generate embedding after ''
                            @ string_of_nat (nat (max 0 (maxRetries cfg)) + 1)
                            @ '' attempts. Last error: ''
                            @ extractErrorMessage (errs (nat (max 0 (maxRetries cfg)))))\<rparr>
        \<and> (maxRetries cfg < 0 \<longrightarrow>
             error (fst (generateEmbedding cfg create text)) =
               Str (''Failed to generate embedding after 1 attempts. Last error: ''
                     @ extractErrorMessage (errs 0)))"
      by blast
  }
  with one show ?thesis by blast
qed

theorem generateEmbedding_clamps_retry_budget_witness:
  "attempts_made (snd (generateEmbedding
       \<lparr>model = ''text-embedding-3-small'', maxRetries = - 1, retryDelay = 10\<rparr>
       (\<lambda>k. Inl (ErrorObj ''Invalid input'')) ''test text for embedding'')) = 1
   \<and> error (fst (generateEmbedding
       \<lparr>model = ''text-embedding-3-small'', maxRetries = - 1, retryDelay = 10\<rparr>
       (\<lambda>k. Inl (ErrorObj ''Invalid input'')) ''test text for embedding'')) =
     Str ''Failed to generate embedding after 1 attempts. Last error: Invalid input''"
  using generateEmbedding_clamps_retry_budget
    [where cfg = "\<lparr>model = ''text-embedding-3-small'', maxRetries = - 1, retryDelay = 10\<rparr>"
       and ?text = "''test text for embedding''" and create = "\<lambda>k. Inl (ErrorObj ''Invalid input'')"
       and errs = "\<lambda>k. ErrorObj ''Invalid input''"]
  by (simp add: string_of_nat_Suc_0)

section \<open>Properties of the rule store\<close>


lemma run_statement_fault:
  "faults d (statements d) = Some msg \<Longrightarrow>
   run_statement d stmt = (Inl (ErrorObj msg), d\<lparr>statements := Suc (statements d)\<rparr>)"
  by (simp add: run_statement_def)

text \<open>
  Claim C1. Whenever the embedding generator returns a failure (a result without success
  or without embedding), \<open>createRule\<close> throws an error whose message wraps the generator's
  error, and the database is left as it was: no statement is issued, no row is inserted,
  the row count of the rule table is unchanged.
\<close>

theorem createRule_embedding_failure_inserts_nothing:
  assumes "client ruleText = Inr res"
    and "\<not> success res \<or> result_embedding res = None"
  shows "createRule client ruleText cat ctx createdFromInstructionId w =
           (Inl (ErrorObj (''Failed to generate embedding: '' @ template (error res))),
            w\<lparr>embedding_calls := embedding_calls w @ [ruleText]\<rparr>)
         \<and> db (snd (createRule client ruleText cat ctx createdFromInstructionId w)) = db w
         \<and> length (rules (db (snd (createRule client ruleText cat ctx createdFromInstructionId w))))
             = length (rules (db w))"
  using assms by (auto simp: createRule_def call_generateEmbedding_def)

theorem createRule_embedding_failure_inserts_nothing_witness:
  "createRule (MockEmbeddingClient True []) ''Use TypeScript for new files'' ''style''
       ''writing unit tests'' 1 test_world =
     (Inl (ErrorObj ''Failed to generate embedding: Mock embedding generation failed''),
      test_world\<lparr>embedding_calls := [''Use TypeScript for new files'']\<rparr>)
   \<and> db (snd (createRule (MockEmbeddingClient True []) ''Use TypeScript for new files'' ''style''
       ''writing unit tests'' 1 test_world)) = db test_world
   \<and> createRule
        (OpenAIEmbeddingClient
           \<lparr>model = ''text-embedding-3-small'', maxRetries = 2, retryDelay = 10\<rparr>
           (\<lambda>k. Inl (ErrorObj ''Server error'')))
        ''Use TypeScript for new files'' ''style'' ''writing unit tests'' 1 test_world =
     (Inl (ErrorObj ''Failed to generate embedding: Failed to generate embedding after 3 attempts. Last error: Server error''),
      test_world\<lparr>embedding_calls := [''Use TypeScript for new files'']\<rparr>)"
proof -
  have three: "string_of_nat 3 = ''3''" by code_simp
  have gen: "OpenAIEmbeddingClient
           \<lparr>model = ''text-embedding-3-small'', maxRetries = 2, retryDelay = 10\<rparr>
           (\<lambda>k. Inl (ErrorObj ''Server error'')) ''Use TypeScript for new files'' =
         Inr (failure ''Failed to generate embedding after 3 attempts. Last error: Server error'')"
    using retry_loop_all_throw
      [where create = "\<lambda>k. Inl (ErrorObj ''Server error'')" and errs = "\<lambda>k. ErrorObj ''Server error''"
         and attempt = 0 and eff = 2
         and cfg = "\<lparr>model = ''text-embedding-3-small'', maxRetries = 2, retryDelay = 10\<rparr>"
         and ?text = "''Use TypeScript for new files''" and lastError = Undefined]
    by (simp add: OpenAIEmbeddingClient_def generateEmbedding_def attempts_message_def three
          attempt_outcome_def)
  have mock: "MockEmbeddingClient True [] ''Use TypeScript for new files'' =
                Inr (failure ''Mock embedding generation failed'')"
    by (simp add: MockEmbeddingClient_def)
  show ?thesis
    using createRule_embedding_failure_inserts_nothing
        [where client = "MockEmbeddingClient True []"
           and ruleText = "''Use TypeScript for new files''"
           and res = "failure ''Mock embedding generation failed''" and cat = "''style''"
           and ctx = "''writing unit tests''" and createdFromInstructionId = 1
           and w = test_world]
      createRule_embedding_failure_inserts_nothing
        [where client = "OpenAIEmbeddingClient
             \<lparr>model = ''text-embedding-3-small'', maxRetries = 2, retryDelay = 10\<rparr>
             (\<lambda>k. Inl (ErrorObj ''Server error''))"
           and ruleText = "''Use TypeScript for new files''"
           and res = "failure ''Failed to generate embedding after 3 attempts. Last error: Server error''"
           and cat = "''style''"
           and ctx = "''writing unit tests''" and createdFromInstructionId = 1
           and w = test_world]
      mock gen
    by (simp add: failure_def test_world_def)
qed

lemma fold_max_ge_seq: "(seq::nat) \<le> fold max ids seq"
  by (induction ids arbitrary: seq) (auto intro: le_trans[OF max.cobounded2])

lemma fold_max_ge_elem: "x \<in> set ids \<Longrightarrow> (x::nat) \<le> fold max ids seq"
proof (induction ids arbitrary: seq)
  case Nil
  then show ?case by simp
next
  case (Cons a ids)
  show ?case
  proof (cases "x = a")
    case True
    have "a \<le> max a seq" by simp
    also have "\<dots> \<le> fold max ids (max a seq)" by (rule fold_max_ge_seq)
    finally show ?thesis using True by simp
  next
    case False
    with Cons show ?thesis by simp
  qed
qed

lemma next_rowid_fresh: "x \<in> set ids \<Longrightarrow> x \<noteq> next_rowid seq ids"
  using fold_max_ge_elem[of x ids seq] by (auto simp: next_rowid_def)

lemma find_append_new: "\<forall>x\<in>set xs. \<not> P x \<Longrightarrow> P y \<Longrightarrow> find P (xs @ [y]) = Some y"
  by (induction xs) auto

lemma find_new_rule:
  "find (\<lambda>r. r_id r = next_rowid seq (map r_id rows)) (rows @ [row\<lparr>r_id := next_rowid seq (map r_id rows)\<rparr>])
     = Some (row\<lparr>r_id := next_rowid seq (map r_id rows)\<rparr>)"
proof (rule find_append_new)
  show "\<forall>x\<in>set rows. r_id x \<noteq> next_rowid seq (map r_id rows)"
    using next_rowid_fresh[of _ "map r_id rows" seq] by auto
qed simp

text \<open>
  Claim C4, as stated, fails: a successful \<open>createRule\<close> with the mock client's vector of
  1536 elements returns a rule object without embedding, since \<open>findRuleById\<close> does not
  select that column.
\<close>

theorem createRule_returned_rule_has_no_embedding_counterexample:
  "fst (createRule (MockEmbeddingClient False (replicate 1536 0)) ''Use TypeScript for new files''
          ''style'' ''writing unit tests'' 1 test_world) =
     Inr (Some \<lparr>r_id = 1, rule_text = ''Use TypeScript for new files'', category = ''style'',
                r_context = ''writing unit tests'', relevance_score = Some 1, embedding = None,
                created_from_instruction_id = Some 1, last_applied = None,
                instructions_count = 1, r_inserted_at = 0\<rparr>)"
  by (simp add: createRule_def call_generateEmbedding_def MockEmbeddingClient_def
        run_statement_def insert_rule_def next_rowid_def findRuleById_def
        select_rule_columns_def test_database_def test_world_def)

lemma createRule_success:
  assumes ok: "createRule client ruleText cat ctx iid w = (Inr res, w')"
  shows "\<exists>er emb new.
           client ruleText = Inr er \<and> success er \<and> result_embedding er = Some emb
           \<and> faults (db w) (statements (db w)) = None
           \<and> faults (db w) (Suc (statements (db w))) = None
           \<and> new = next_rowid (rules_seq (db w)) (map r_id (rules (db w)))
           \<and> res = Some \<lparr>r_id = new, rule_text = ruleText, category = cat, r_context = ctx,
                 relevance_score = Some 1, embedding = None,
                 created_from_instruction_id = Some iid, last_applied = None,
                 instructions_count = 1, r_inserted_at = current_timestamp (db w)\<rparr>
           \<and> rules (db w') = rules (db w) @
                 [\<lparr>r_id = new, rule_text = ruleText, category = cat, r_context = ctx,
                 relevance_score = Some 1, embedding = Some emb,
                 created_from_instruction_id = Some iid, last_applied = None,
                 instructions_count = 1, r_inserted_at = current_timestamp (db w)\<rparr>]
           \<and> user_instructions (db w') = user_instructions (db w)"
proof -
  obtain er where er: "client ruleText = Inr er"
    using ok by (cases "client ruleText") (auto simp: createRule_def call_generateEmbedding_def)
  have s: "success er" and "result_embedding er \<noteq> None"
    using ok er by (auto simp: createRule_def call_generateEmbedding_def split: if_splits option.splits)
  then obtain emb where emb: "result_embedding er = Some emb" by auto
  have f1: "faults (db w) (statements (db w)) = None"
    using ok er s emb
    by (cases "faults (db w) (statements (db w))")
       (auto simp: createRule_def call_generateEmbedding_def run_statement_def)
  have f2: "faults (db w) (Suc (statements (db w))) = None"
    using ok er s emb f1
    by (cases "faults (db w) (Suc (statements (db w)))")
       (auto simp: createRule_def call_generateEmbedding_def run_statement_def insert_rule_def
          findRuleById_def Let_def)
  let ?new = "next_rowid (rules_seq (db w)) (map r_id (rules (db w)))"
  let ?row = "\<lparr>r_id = ?new, rule_text = ruleText, category = cat, r_context = ctx,
                 relevance_score = Some 1, embedding = Some emb,
                 created_from_instruction_id = Some iid, last_applied = None,
                 instructions_count = 1, r_inserted_at = current_timestamp (db w)\<rparr>"
  have fnd: "find (\<lambda>r. r_id r = ?new) (rules (db w) @ [?row]) = Some ?row"
    using find_new_rule[of "rules_seq (db w)" "rules (db w)" ?row] by simp
  have "createRule client ruleText cat ctx iid w =
          (Inr (Some (select_rule_columns ?row)),
           w\<lparr>embedding_calls := embedding_calls w @ [ruleText],
              db := (db w)\<lparr>statements := Suc (Suc (statements (db w))),
                             rules := rules (db w) @ [?row], rules_seq := ?new\<rparr>\<rparr>)"
    using er s emb f1 f2 fnd
    by (simp add: createRule_def call_generateEmbedding_def run_statement_def insert_rule_def
          findRuleById_def Let_def)
  with ok have "res = Some (select_rule_columns ?row)"
    and "w' = w\<lparr>embedding_calls := embedding_calls w @ [ruleText],
              db := (db w)\<lparr>statements := Suc (Suc (statements (db w))),
                             rules := rules (db w) @ [?row], rules_seq := ?new\<rparr>\<rparr>"
    by simp_all
  then show ?thesis using er s emb f1 f2 by (simp add: select_rule_columns_def)
qed

text \<open>
  Claim C4, amended. Every successful \<open>createRule\<close> call returns the rule object that
  \<open>findRuleById\<close> reads back: it carries the given rule text, category, context and
  originating instruction id and \<open>instructions_count = 1\<close>, and it has no embedding field.
  The vector that the generator returned is stored in the row that the call appends to
  the rule table.
\<close>

theorem createRule_success_returns_projection:
  assumes "createRule client ruleText cat ctx iid w = (Inr res, w')"
  shows "\<exists>r er emb.
           res = Some r \<and> embedding r = None
           \<and> rule_text r = ruleText \<and> category r = cat \<and> r_context r = ctx
           \<and> created_from_instruction_id r = Some iid \<and> instructions_count r = 1
           \<and> client ruleText = Inr er \<and> result_embedding er = Some emb
           \<and> rules (db w') = rules (db w) @ [r\<lparr>embedding := Some emb\<rparr>]"
  using createRule_success[OF assms] by auto

theorem createRule_success_returns_projection_witness:
  "createRule (MockEmbeddingClient False (replicate 1536 0.5)) ''Use TypeScript for new files''
          ''style'' ''writing unit tests'' 1 test_world =
     (Inr (Some \<lparr>r_id = 1, rule_text = ''Use TypeScript for new files'', category = ''style'',
                r_context = ''writing unit tests'', relevance_score = Some 1, embedding = None,
                created_from_instruction_id = Some 1, last_applied = None,
                instructions_count = 1, r_inserted_at = 0\<rparr>),
      \<lparr>db = test_database\<lparr>rules :=
              [\<lparr>r_id = 1, rule_text = ''Use TypeScript for new files'', category = ''style'',
                r_context = ''writing unit tests'', relevance_score = Some 1,
                embedding = Some (replicate 1536 0.5),
                created_from_instruction_id = Some 1, last_applied = None,
                instructions_count = 1, r_inserted_at = 0\<rparr>], rules_seq := 1, statements := 2\<rparr>,
        embedding_calls = [''Use TypeScript for new files'']\<rparr>)
   \<and> (\<exists>r er emb.
           Some \<lparr>r_id = 1, rule_text = ''Use TypeScript for new files'', category = ''style'',
                r_context = ''writing unit tests'', relevance_score = Some 1, embedding = None,
                created_from_instruction_id = Some 1, last_applied = None,
                instructions_count = 1, r_inserted_at = 0\<rparr> = Some r \<and> embedding r = None
           \<and> MockEmbeddingClient False (replicate 1536 0.5) ''Use TypeScript for new files'' = Inr er
           \<and> result_embedding er = Some emb)"
proof -
  have run: "createRule (MockEmbeddingClient False (replicate 1536 0.5)) ''Use TypeScript for new files''
          ''style'' ''writing unit tests'' 1 test_world =
     (Inr (Some \<lparr>r_id = 1, rule_text = ''Use TypeScript for new files'', category = ''style'',
                r_context = ''writing unit tests'', relevance_score = Some 1, embedding = None,
                created_from_instruction_id = Some 1, last_applied = None,
                instructions_count = 1, r_inserted_at = 0\<rparr>),
      \<lparr>db = test_database\<lparr>rules :=
              [\<lparr>r_id = 1, rule_text = ''Use TypeScript for new files'', category = ''style'',
                r_context = ''writing unit tests'', relevance_score = Some 1,
                embedding = Some (replicate 1536 0.5),
                created_from_instruction_id = Some 1, last_applied = None,
                instructions_count = 1, r_inserted_at = 0\<rparr>], rules_seq := 1, statements := 2\<rparr>,
        embedding_calls = [''Use TypeScript for new files'']\<rparr>)"
    by (simp add: createRule_def call_generateEmbedding_def MockEmbeddingClient_def
        run_statement_def insert_rule_def next_rowid_def findRuleById_def
        select_rule_columns_def test_database_def test_world_def)
  show ?thesis
    using createRule_success_returns_projection[OF run] run by auto
qed






section \<open>Properties of the instruction intake\<close>

text \<open>
  Claim C2 at the input of the repository's own test for it. The classifier answers
  \<^verbatim>\<open>success: true, rule: null\<close> with a reason. Nothing is written, but the handler answers
  \<^verbatim>\<open>Failed to generate abstract rule: null\<close>: the wording of a failure, without the reason.
  The test expects a text containing \<^verbatim>\<open>No rule generated.\<close>
\<close>

theorem remember_not_generalizable_reports_failure:
  "rememberDeveloperInstructionHandler
      (\<lambda>instr ctx. Inr \<lparr>rg_success = True, rule = None,
                          reason = Str ''Too specific: pixel-level adjustment'',
                          rg_error = Null\<rparr>)
      client ''Move the button 3 px right'' ''UI tweak'' w =
     (Inr [TextContent ''Failed to generate abstract rule: null''], w)"
  by (simp add: rememberDeveloperInstructionHandler_def remember_body_def text_result_def)

lemma find_new_instruction:
  "find (\<lambda>r. i_id r = next_rowid seq (map i_id rows))
     (rows @ [row\<lparr>i_id := next_rowid seq (map i_id rows)\<rparr>])
     = Some (row\<lparr>i_id := next_rowid seq (map i_id rows)\<rparr>)"
proof (rule find_append_new)
  show "\<forall>x\<in>set rows. i_id x \<noteq> next_rowid seq (map i_id rows)"
    using next_rowid_fresh[of _ "map i_id rows" seq] by auto
qed simp

lemma createInstruction_ok:
  assumes "faults d (statements d) = None" "faults d (Suc (statements d)) = None"
  shows "createInstruction instr ctx d =
           (Inr (Some (new_instruction instr ctx d)),
            d\<lparr>statements := Suc (Suc (statements d)),
               user_instructions := user_instructions d @ [new_instruction instr ctx d],
               user_instructions_seq := i_id (new_instruction instr ctx d)\<rparr>)"
  using assms
    find_new_instruction[of "user_instructions_seq d" "user_instructions d"
      "new_instruction instr ctx d"]
  by (simp add: createInstruction_def run_statement_def insert_user_instruction_def
        findInstructionById_def Let_def new_instruction_def)

lemma createRule_fails_keeps_tables:
  assumes "(\<exists>t. client ruleText = Inl t)
           \<or> (\<exists>er. client ruleText = Inr er \<and> (\<not> success er \<or> result_embedding er = None))
           \<or> (\<exists>msg. faults (db w) (statements (db w)) = Some msg)"
  shows "\<exists>t w'. createRule client ruleText cat ctx iid w = (Inl t, w')
           \<and> user_instructions (db w') = user_instructions (db w)
           \<and> rules (db w') = rules (db w)"
  using assms
  by (auto simp: createRule_def call_generateEmbedding_def run_statement_def
        split: sum.splits option.splits)

text \<open>
  Claim C5. When the classifier yields a rule, the instruction row is created (its insert
  and its read-back run), and rule creation then fails because the embedding client
  throws, or returns a failure, or the insert into the rule table throws, the handler
  answers \<^verbatim>\<open>Failed to create rule with embedding: ...\<close>, the new instruction row is in the
  instruction table with \<open>rule_id\<close> unset, and the rule table is unchanged.
\<close>

theorem remember_rule_creation_failure_keeps_instruction:
  assumes llm: "llmClient instr ctx = Inr g" "rg_success g" "rule g = Some (ruleText, cat)"
    and stored: "faults (db w) (statements (db w)) = None"
                "faults (db w) (Suc (statements (db w))) = None"
    and fails: "(\<exists>t. client ruleText = Inl t)
           \<or> (\<exists>er. client ruleText = Inr er \<and> (\<not> success er \<or> result_embedding er = None))
           \<or> (\<exists>msg. faults (db w) (Suc (Suc (statements (db w)))) = Some msg)"
  shows "\<exists>msg w'. rememberDeveloperInstructionHandler llmClient client instr ctx w =
                    (Inr [TextContent (''Failed to create rule with embedding: '' @ msg)], w')
           \<and> user_instructions (db w') =
               user_instructions (db w) @
                 [\<lparr>i_id = next_rowid (user_instructions_seq (db w))
                            (map i_id (user_instructions (db w))),
                   instruction = instr, i_context = ctx,
                   i_inserted_at = current_timestamp (db w), rule_id = None\<rparr>]
           \<and> rules (db w') = rules (db w)"
proof -
  let ?d1 = "(db w)\<lparr>statements := Suc (Suc (statements (db w))),
               user_instructions := user_instructions (db w) @ [new_instruction instr ctx (db w)],
               user_instructions_seq := i_id (new_instruction instr ctx (db w))\<rparr>"
  let ?w1 = "w\<lparr>db := ?d1\<rparr>"
  have ci: "createInstruction instr ctx (db w) = (Inr (Some (new_instruction instr ctx (db w))), ?d1)"
    by (rule createInstruction_ok[OF stored])
  have "(\<exists>t. client ruleText = Inl t)
           \<or> (\<exists>er. client ruleText = Inr er \<and> (\<not> success er \<or> result_embedding er = None))
           \<or> (\<exists>msg. faults (db ?w1) (statements (db ?w1)) = Some msg)"
    using fails by simp
  from createRule_fails_keeps_tables[where client = client and ruleText = ruleText and w = ?w1
         and cat = cat and ctx = ctx and iid = "i_id (new_instruction instr ctx (db w))", OF this]
  obtain t w' where cr: "createRule client ruleText cat ctx (i_id (new_instruction instr ctx (db w))) ?w1 = (Inl t, w')"
    and ui: "user_instructions (db w') = user_instructions (db ?w1)"
    and ru: "rules (db w') = rules (db ?w1)"
    by blast
  have "rememberDeveloperInstructionHandler llmClient client instr ctx w =
          (Inr [TextContent (''Failed to create rule with embedding: '' @ message_or_unknown t)], w')"
    using llm ci cr
    by (simp add: rememberDeveloperInstructionHandler_def remember_body_def
          create_rule_and_link_def text_result_def)
  then show ?thesis using ui ru by (auto simp: new_instruction_def)
qed

theorem remember_rule_creation_failure_keeps_instruction_witness:
  "rememberDeveloperInstructionHandler
      (\<lambda>instr ctx. Inr \<lparr>rg_success = True, rule = Some (''Test rule'', ''testing''),
                          reason = Null, rg_error = Null\<rparr>)
      (MockEmbeddingClient True []) ''This should fail'' ''Testing embedding failure''
      test_world =
     (Inr [TextContent ''Failed to create rule with embedding: Failed to generate embedding: Mock embedding generation failed''],
      \<lparr>db = test_database
              \<lparr>user_instructions :=
                 user_instructions test_database @
                   [\<lparr>i_id = 2, instruction = ''This should fail'',
                     i_context = ''Testing embedding failure'', i_inserted_at = 0,
                     rule_id = None\<rparr>],
               user_instructions_seq := 2, statements := 2\<rparr>,
        embedding_calls = [''Test rule'']\<rparr>)
   \<and> (\<exists>msg w'. rememberDeveloperInstructionHandler
      (\<lambda>instr ctx. Inr \<lparr>rg_success = True, rule = Some (''Test rule'', ''testing''),
                          reason = Null, rg_error = Null\<rparr>)
      (MockEmbeddingClient True []) ''This should fail'' ''Testing embedding failure''
      test_world =
        (Inr [TextContent (''Failed to create rule with embedding: '' @ msg)], w')
       \<and> rules (db w') = [])"
proof -
  have run: "rememberDeveloperInstructionHandler
      (\<lambda>instr ctx. Inr \<lparr>rg_success = True, rule = Some (''Test rule'', ''testing''),
                          reason = Null, rg_error = Null\<rparr>)
      (MockEmbeddingClient True []) ''This should fail'' ''Testing embedding failure''
      test_world =
     (Inr [TextContent ''Failed to create rule with embedding: Failed to generate embedding: Mock embedding generation failed''],
      \<lparr>db = test_database
              \<lparr>user_instructions :=
                 user_instructions test_database @
                   [\<lparr>i_id = 2, instruction = ''This should fail'',
                     i_context = ''Testing embedding failure'', i_inserted_at = 0,
                     rule_id = None\<rparr>],
               user_instructions_seq := 2, statements := 2\<rparr>,
        embedding_calls = [''Test rule'']\<rparr>)"
    by (simp add: rememberDeveloperInstructionHandler_def remember_body_def
          create_rule_and_link_def text_result_def createInstruction_def run_statement_def
          insert_user_instruction_def findInstructionById_def next_rowid_def
          createRule_def call_generateEmbedding_def MockEmbeddingClient_def failure_def
          test_database_def test_world_def)
  have "\<exists>msg w'. rememberDeveloperInstructionHandler
      (\<lambda>instr ctx. Inr \<lparr>rg_success = True, rule = Some (''Test rule'', ''testing''),
                          reason = Null, rg_error = Null\<rparr>)
      (MockEmbeddingClient True []) ''This should fail'' ''Testing embedding failure''
      test_world =
        (Inr [TextContent (''Failed to create rule with embedding: '' @ msg)], w')
       \<and> rules (db w') = []"
  proof -
    have fails: "MockEmbeddingClient True [] ''Test rule'' =
                   Inr (failure ''Mock embedding generation failed'')"
      by (simp add: MockEmbeddingClient_def)
    show ?thesis
    using remember_rule_creation_failure_keeps_instruction
      [where llmClient = "\<lambda>instr ctx. Inr \<lparr>rg_success = True, rule = Some (''Test rule'', ''testing''),
                          reason = Null, rg_error = Null\<rparr>"
         and client = "MockEmbeddingClient True []" and instr = "''This should fail''"
         and ctx = "''Testing embedding failure''"
         and w = "test_world"
         and ruleText = "''Test rule''" and cat = "''testing''"
         and g = "\<lparr>rg_success = True, rule = Some (''Test rule'', ''testing''),
                          reason = Null, rg_error = Null\<rparr>"]
      fails
    by (auto simp add: failure_def test_database_def test_world_def)
  qed
  with run show ?thesis by blast
qed

section \<open>Properties of the retrieval\<close>

text \<open>
  Claim C6. When the task description is empty after trimming, or \<open>maxResults\<close> is outside
  \<open>[1, 100]\<close>, or \<open>similarityThreshold\<close> is outside \<open>[-1, 1]\<close>, the handler returns one of its
  three validation messages and leaves the state as it was: the embedding client is not
  called and no statement is issued.
\<close>

theorem getRelevantRules_validation_before_any_call:
  assumes "trim (taskDescription params) = []
           \<or> (\<exists>n. maxResults params = Some n \<and> (n < 1 \<or> 100 < n))
           \<or> (\<exists>x. similarityThreshold params = Some x \<and> (x < - 1 \<or> 1 < x))"
  shows "\<exists>msg. getRelevantRulesHandler fmt vec_distance_cosine client params w =
                 (Inr [TextContent msg], w)
           \<and> msg \<in> {''Error: taskDescription cannot be empty'',
                      ''Error: maxResults must be between 1 and 100'',
                      ''Error: similarityThreshold must be between -1 and 1''}
           \<and> embedding_calls (snd (getRelevantRulesHandler fmt vec_distance_cosine client params w))
               = embedding_calls w
           \<and> statements (db (snd (getRelevantRulesHandler fmt vec_distance_cosine client params w)))
               = statements (db w)"
  using assms
  by (auto simp: getRelevantRulesHandler_def getRelevantRules_body_def text_result_def Let_def
        split: option.splits)

section \<open>The retrieval and the similarity query at concrete inputs\<close>

lemma trim_blank: "trim ''   '' = []"
  by (simp add: trim_def js_whitespace_def)

theorem getRelevantRules_validation_before_any_call_witness:
  "trim (taskDescription \<lparr>taskDescription = ''   '', maxResults = None,
                           similarityThreshold = None\<rparr>) = []
   \<and> getRelevantRulesHandler example_format example_distance (MockEmbeddingClient False [1])
        \<lparr>taskDescription = ''   '', maxResults = None, similarityThreshold = None\<rparr> test_world =
       (Inr [TextContent ''Error: taskDescription cannot be empty''], test_world)
   \<and> getRelevantRulesHandler example_format example_distance (MockEmbeddingClient False [1])
        \<lparr>taskDescription = ''test task'', maxResults = Some 101, similarityThreshold = None\<rparr>
        test_world =
       (Inr [TextContent ''Error: maxResults must be between 1 and 100''], test_world)
   \<and> embedding_calls (snd (getRelevantRulesHandler example_format example_distance
        (MockEmbeddingClient False [1])
        \<lparr>taskDescription = ''   '', maxResults = None, similarityThreshold = None\<rparr> test_world))
       = []"
proof -
  have a: "getRelevantRulesHandler example_format example_distance (MockEmbeddingClient False [1])
        \<lparr>taskDescription = ''   '', maxResults = None, similarityThreshold = None\<rparr> test_world =
       (Inr [TextContent ''Error: taskDescription cannot be empty''], test_world)"
    by (simp add: getRelevantRulesHandler_def getRelevantRules_body_def text_result_def trim_blank)
  have b: "getRelevantRulesHandler example_format example_distance (MockEmbeddingClient False [1])
        \<lparr>taskDescription = ''test task'', maxResults = Some 101, similarityThreshold = None\<rparr>
        test_world =
       (Inr [TextContent ''Error: maxResults must be between 1 and 100''], test_world)"
    by (simp add: getRelevantRulesHandler_def getRelevantRules_body_def text_result_def
          trim_def js_whitespace_def)
  show ?thesis
    using getRelevantRules_validation_before_any_call
      [where params = "\<lparr>taskDescription = ''   '', maxResults = None, similarityThreshold = None\<rparr>"
         and fmt = example_format and vec_distance_cosine = example_distance
         and client = "MockEmbeddingClient False [1]" and w = test_world]
      a b
    by (simp add: trim_blank test_world_def)
qed


section \<open>The handlers always answer\<close>

lemma create_rule_and_link_text:
  "create_rule_and_link client ruleText cat ctx ci w = (Inr res, w') \<Longrightarrow> \<exists>s. res = [TextContent s]"
  by (auto simp: create_rule_and_link_def text_result_def
        split: option.splits sum.splits prod.splits)

lemma remember_body_text:
  "remember_body llmClient client instr ctx w = (Inr res, w') \<Longrightarrow> \<exists>s. res = [TextContent s]"
  by (auto simp: remember_body_def text_result_def dest: create_rule_and_link_text
        split: option.splits sum.splits prod.splits if_splits)

lemma rememberDeveloperInstructionHandler_text:
  "\<exists>s w'. rememberDeveloperInstructionHandler llmClient client instr ctx w = (Inr [TextContent s], w')"
proof (cases "remember_body llmClient client instr ctx w")
  case (Pair x w')
  then show ?thesis
    by (cases x) (auto simp: rememberDeveloperInstructionHandler_def text_result_def
                    dest: remember_body_text)
qed

lemma getRelevantRules_body_text:
  "getRelevantRules_body fmt vdc client params w = (Inr res, w') \<Longrightarrow> \<exists>s. res = [TextContent s]"
  by (auto simp: getRelevantRules_body_def text_result_def Let_def
        split: option.splits sum.splits prod.splits if_splits)

lemma getRelevantRulesHandler_text:
  "\<exists>s w'. getRelevantRulesHandler fmt vdc client params w = (Inr [TextContent s], w')"
proof (cases "getRelevantRules_body fmt vdc client params w")
  case (Pair x w')
  then show ?thesis
    by (cases x) (auto simp: getRelevantRulesHandler_def text_result_def
                    dest: getRelevantRules_body_text)
qed

lemma remember_llm_throws:
  "llmClient instr ctx = Inl t \<Longrightarrow>
   rememberDeveloperInstructionHandler llmClient client instr ctx w =
     (Inr [TextContent (''Unexpected error: '' @ message_or_unknown t)], w)"
  by (simp add: rememberDeveloperInstructionHandler_def remember_body_def text_result_def)

lemma remember_store_throws:
  "llmClient instr ctx = Inr g \<Longrightarrow> rg_success g \<Longrightarrow> rule g = Some rc \<Longrightarrow>
   faults (db w) (statements (db w)) = Some msg \<Longrightarrow>
   rememberDeveloperInstructionHandler llmClient client instr ctx w =
     (Inr [TextContent (''Failed to create instruction: '' @ msg)],
      w\<lparr>db := (db w)\<lparr>statements := Suc (statements (db w))\<rparr>\<rparr>)"
  by (cases rc)
     (simp add: rememberDeveloperInstructionHandler_def remember_body_def text_result_def
        createInstruction_def run_statement_def)

lemma getRelevantRules_embedding_throws:
  "trim (taskDescription params) \<noteq> [] \<Longrightarrow>
   (\<forall>n. maxResults params = Some n \<longrightarrow> 1 \<le> n \<and> n \<le> 100) \<Longrightarrow>
   (\<forall>x. similarityThreshold params = Some x \<longrightarrow> - 1 \<le> x \<and> x \<le> 1) \<Longrightarrow> client (taskDescription params) = Inl t \<Longrightarrow>
   getRelevantRulesHandler fmt vdc client params w =
     (Inr [TextContent (''Unexpected error: '' @ message_or_unknown t)],
      w\<lparr>embedding_calls := embedding_calls w @ [taskDescription params]\<rparr>)"
  by (auto simp: getRelevantRulesHandler_def getRelevantRules_body_def text_result_def
        call_generateEmbedding_def Let_def split: option.splits)

lemma getRelevantRules_store_throws:
  "trim (taskDescription params) \<noteq> [] \<Longrightarrow>
   (\<forall>n. maxResults params = Some n \<longrightarrow> 1 \<le> n \<and> n \<le> 100) \<Longrightarrow>
   (\<forall>x. similarityThreshold params = Some x \<longrightarrow> - 1 \<le> x \<and> x \<le> 1) \<Longrightarrow>
   client (taskDescription params) = Inr \<lparr>success = True, result_embedding = Some e, error = Undefined\<rparr> \<Longrightarrow>
   faults (db w) (statements (db w)) = Some msg \<Longrightarrow>
   getRelevantRulesHandler fmt vdc client params w =
     (Inr [TextContent (''Unexpected error: '' @ msg)],
      w\<lparr>embedding_calls := embedding_calls w @ [taskDescription params],
         db := (db w)\<lparr>statements := Suc (statements (db w))\<rparr>\<rparr>)"
  by (auto simp: getRelevantRulesHandler_def getRelevantRules_body_def text_result_def
        call_generateEmbedding_def findSimilarRules_def run_statement_def Let_def
        split: option.splits)

text \<open>
  Claim C9. For every input, every classifier, embedding client and store, throwing ones
  included, each of the two handlers resolves to a result with one text item: no thrown
  value leaves a handler. A classifier that throws, and in the retrieval an embedding
  client or a store that throws, is answered with \<^verbatim>\<open>Unexpected error: ...\<close>; a store that
  throws while the instruction is created is answered with
  \<^verbatim>\<open>Failed to create instruction: ...\<close>.
\<close>

theorem handlers_return_text_and_never_throw:
  "(\<exists>s w'. rememberDeveloperInstructionHandler llmClient client instr ctx w =
              (Inr [TextContent s], w'))
   \<and> (\<exists>s w'. getRelevantRulesHandler fmt vec_distance_cosine client params w =
              (Inr [TextContent s], w'))
   \<and> (llmClient instr ctx = Inl t \<longrightarrow>
        rememberDeveloperInstructionHandler llmClient client instr ctx w =
          (Inr [TextContent (''Unexpected error: '' @ message_or_unknown t)], w))
   \<and> (llmClient instr ctx = Inr g \<and> rg_success g \<and> rule g = Some rc
        \<and> faults (db w) (statements (db w)) = Some msg \<longrightarrow>
        rememberDeveloperInstructionHandler llmClient client instr ctx w =
          (Inr [TextContent (''Failed to create instruction: '' @ msg)],
           w\<lparr>db := (db w)\<lparr>statements := Suc (statements (db w))\<rparr>\<rparr>))
   \<and> (trim (taskDescription params) \<noteq> []
        \<and> (\<forall>n. maxResults params = Some n \<longrightarrow> 1 \<le> n \<and> n \<le> 100)
        \<and> (\<forall>x. similarityThreshold params = Some x \<longrightarrow> - 1 \<le> x \<and> x \<le> 1) \<and> client (taskDescription params) = Inl t \<longrightarrow>
        getRelevantRulesHandler fmt vec_distance_cosine client params w =
          (Inr [TextContent (''Unexpected error: '' @ message_or_unknown t)],
           w\<lparr>embedding_calls := embedding_calls w @ [taskDescription params]\<rparr>))
   \<and> (trim (taskDescription params) \<noteq> []
        \<and> (\<forall>n. maxResults params = Some n \<longrightarrow> 1 \<le> n \<and> n \<le> 100)
        \<and> (\<forall>x. similarityThreshold params = Some x \<longrightarrow> - 1 \<le> x \<and> x \<le> 1)
        \<and> client (taskDescription params) =
            Inr \<lparr>success = True, result_embedding = Some e, error = Undefined\<rparr>
        \<and> faults (db w) (statements (db w)) = Some msg \<longrightarrow>
        getRelevantRulesHandler fmt vec_distance_cosine client params w =
          (Inr [TextContent (''Unexpected error: '' @ msg)],
           w\<lparr>embedding_calls := embedding_calls w @ [taskDescription params],
              db := (db w)\<lparr>statements := Suc (statements (db w))\<rparr>\<rparr>))"
  using rememberDeveloperInstructionHandler_text[of llmClient client instr ctx w]
    getRelevantRulesHandler_text[of fmt vec_distance_cosine client params w]
    remember_llm_throws[of llmClient instr ctx t client w]
    remember_store_throws[of llmClient instr ctx g rc w msg client]
    getRelevantRules_embedding_throws[of params client t fmt vec_distance_cosine w]
    getRelevantRules_store_throws[of params client e w msg fmt vec_distance_cosine]
  by blast

lemma trim_test_task: "trim ''test task'' = ''test task''"
  by (simp add: trim_def js_whitespace_def)

theorem handlers_return_text_and_never_throw_witness:
  "rememberDeveloperInstructionHandler (\<lambda>instr ctx. Inl (ErrorObj ''LLM service unavailable''))
       (MockEmbeddingClient False [1]) ''This should fail'' ''Testing LLM failure'' test_world =
     (Inr [TextContent ''Unexpected error: LLM service unavailable''], test_world)
   \<and> rememberDeveloperInstructionHandler (\<lambda>instr ctx. Inl OtherThrown)
       (MockEmbeddingClient False [1]) ''This should fail'' ''Testing LLM failure'' test_world =
     (Inr [TextContent ''Unexpected error: Unknown error''], test_world)
   \<and> getRelevantRulesHandler example_format example_distance (MockEmbeddingClient False [1])
       \<lparr>taskDescription = ''test task'', maxResults = None, similarityThreshold = None\<rparr>
       \<lparr>db = closed_database, embedding_calls = []\<rparr> =
     (Inr [TextContent ''Unexpected error: The database connection is not open''],
      \<lparr>db = closed_database\<lparr>statements := 1\<rparr>, embedding_calls = [''test task'']\<rparr>)
   \<and> getRelevantRulesHandler example_format example_distance
       (\<lambda>text. Inl (ErrorObj ''socket hang up''))
       \<lparr>taskDescription = ''test task'', maxResults = None, similarityThreshold = None\<rparr>
       test_world =
     (Inr [TextContent ''Unexpected error: socket hang up''],
      test_world\<lparr>embedding_calls := [''test task'']\<rparr>)"
proof -
  have closed: "faults closed_database (statements closed_database) =
                  Some ''The database connection is not open''"
    by (simp add: closed_database_def test_database_def)
  have st: "statements closed_database = 0"
    by (simp add: closed_database_def test_database_def)
  have a: "rememberDeveloperInstructionHandler (\<lambda>instr ctx. Inl (ErrorObj ''LLM service unavailable''))
       (MockEmbeddingClient False [1]) ''This should fail'' ''Testing LLM failure'' test_world =
     (Inr [TextContent ''Unexpected error: LLM service unavailable''], test_world)"
    using handlers_return_text_and_never_throw
      [where llmClient = "\<lambda>instr ctx. Inl (ErrorObj ''LLM service unavailable'')"
         and instr = "''This should fail''" and ctx = "''Testing LLM failure''"
         and t = "ErrorObj ''LLM service unavailable''"
         and client = "MockEmbeddingClient False [1]" and w = test_world]
    by simp
  have b: "rememberDeveloperInstructionHandler (\<lambda>instr ctx. Inl OtherThrown)
       (MockEmbeddingClient False [1]) ''This should fail'' ''Testing LLM failure'' test_world =
     (Inr [TextContent ''Unexpected error: Unknown error''], test_world)"
    using handlers_return_text_and_never_throw
      [where llmClient = "\<lambda>instr ctx. Inl OtherThrown"
         and instr = "''This should fail''" and ctx = "''Testing LLM failure''"
         and t = "OtherThrown"
         and client = "MockEmbeddingClient False [1]" and w = test_world]
    by simp
  have c: "getRelevantRulesHandler example_format example_distance (MockEmbeddingClient False [1])
       \<lparr>taskDescription = ''test task'', maxResults = None, similarityThreshold = None\<rparr>
       \<lparr>db = closed_database, embedding_calls = []\<rparr> =
     (Inr [TextContent ''Unexpected error: The database connection is not open''],
      \<lparr>db = closed_database\<lparr>statements := 1\<rparr>, embedding_calls = [''test task'']\<rparr>)"
    using handlers_return_text_and_never_throw
      [where params = "\<lparr>taskDescription = ''test task'', maxResults = None, similarityThreshold = None\<rparr>"
         and client = "MockEmbeddingClient False [1]" and e = "[1]"
         and msg = "''The database connection is not open''"
         and w = "\<lparr>db = closed_database, embedding_calls = []\<rparr>"
         and fmt = example_format and vec_distance_cosine = example_distance]
      closed
    by (simp add: trim_test_task MockEmbeddingClient_def st)
  have d: "getRelevantRulesHandler example_format example_distance
       (\<lambda>text. Inl (ErrorObj ''socket hang up''))
       \<lparr>taskDescription = ''test task'', maxResults = None, similarityThreshold = None\<rparr>
       test_world =
     (Inr [TextContent ''Unexpected error: socket hang up''],
      test_world\<lparr>embedding_calls := [''test task'']\<rparr>)"
    using handlers_return_text_and_never_throw
      [where params = "\<lparr>taskDescription = ''test task'', maxResults = None, similarityThreshold = None\<rparr>"
         and client = "\<lambda>text. Inl (ErrorObj ''socket hang up'')"
         and t = "ErrorObj ''socket hang up''"
         and w = test_world
         and fmt = example_format and vec_distance_cosine = example_distance]
    by (simp add: trim_test_task test_world_def)
  from a b c d show ?thesis by blast
qed

end
